theory Spec2Isabelle
  imports Complex_Main "HOL-Library.Multiset"
begin

section \<open>Numbers, tensors and the external state algebra\<close>

text \<open>
  The limiter is a template over \<open>Number\<close> (default \<open>double\<close>) and its scalar type
  \<open>ScalarNumber\<close>. Both are modelled by \<open>real\<close>, one lane. The two running sums of
  \<open>accumulate\<close> are rounded to double after each operation, as the hardware does, because
  their value depends on the order of the calls; every other operation is taken exactly.
  Overflow and NaN are outside this model; the two constants of
  \<open>std::numeric_limits<double>\<close> that the code reads are kept with their values.
\<close>

definition scalar_max :: real where
  \<comment> \<open>\<open>std::numeric_limits<ScalarNumber>::max()\<close>, the largest finite double\<close>
  "scalar_max = (2 - 1 / 2 ^ 52) * 2 ^ 1023"

definition scalar_eps :: real where
  \<comment> \<open>\<open>std::numeric_limits<ScalarNumber>::epsilon()\<close>\<close>
  "scalar_eps = 1 / 2 ^ 52"

text \<open>
  The result of one arithmetic operation on doubles: the exact result, rounded to the
  nearest number with 53 significant bits, a tie going to the even neighbour. Below
  \<open>2^-1022\<close> the spacing stays \<open>2^-1074\<close>. A result beyond the largest double is left as
  it is (the hardware gives infinity there).
\<close>

definition round_to_even :: "real \<Rightarrow> int" where
  "round_to_even x =
     (let n = \<lfloor>x\<rfloor>; f = x - of_int n
      in if f < 1 / 2 then n else if 1 / 2 < f then n + 1 else if even n then n else n + 1)"

definition double_exponent :: "real \<Rightarrow> int" where
  "double_exponent x = max \<lfloor>log 2 \<bar>x\<bar>\<rfloor> (- 1022)"

definition round_double :: "real \<Rightarrow> real" where
  "round_double x =
     (if x = 0 then 0
      else let ulp = 2 powr (of_int (double_exponent x) - 52)
           in of_int (round_to_even (x / ulp)) * ulp)"

datatype error = ExcNotImplemented | ExcInternalError

text \<open>
  A \<open>dealii::Tensor<1, n, Number>\<close> is a list of its components. Sum, difference and
  scaling are componentwise, and the product of two rank-1 tensors is their scalar product.
  The C++ types fix both operands to the same length.
\<close>

type_synonym tensor = "real list"

type_synonym state_type = "real list"

definition tensor_add :: "tensor \<Rightarrow> tensor \<Rightarrow> tensor" where
  "tensor_add a b = map2 (+) a b"

definition tensor_sub :: "tensor \<Rightarrow> tensor \<Rightarrow> tensor" where
  "tensor_sub a b = map2 (-) a b"

definition tensor_scale :: "tensor \<Rightarrow> real \<Rightarrow> tensor" where
  "tensor_scale a c = map (\<lambda>x. x * c) a"

definition tensor_dot :: "tensor \<Rightarrow> tensor \<Rightarrow> real" where
  "tensor_dot a b = sum_list (map2 (*) a b)"

text \<open>
  \<open>HyperbolicSystem::View\<close> is declared in \<open>hyperbolic_system.h\<close>, outside the sources at
  hand. The limiter calls three of its functions; they are taken as parameters.
\<close>

record hyperbolic_system =
  density :: "state_type \<Rightarrow> real"
  momentum :: "state_type \<Rightarrow> tensor"
  specific_entropy :: "state_type \<Rightarrow> real"

text \<open>
  \<open>precomputed_values.get_tensor(i)\<close> yields the pair \<open>(s_i, eta_i)\<close> stored for node \<open>i\<close>.
\<close>

type_synonym precomputed_values = "nat \<Rightarrow> real \<times> real"

section \<open>The limiter: stencil-based computation of bounds\<close>

text \<open>
  \<open>Bounds = std::array<Number, 3>\<close>, always destructured as \<open>[rho_min, rho_max, s_min]\<close>.
  The member \<open>bounds_\<close> of the class is the field \<open>bounds_member\<close> (a name cannot end in an
  underscore here).
\<close>

type_synonym Bounds = "real \<times> real \<times> real"

record limiter =
  bounds_member :: Bounds
  rho_relaxation_numerator :: real
  rho_relaxation_denominator :: real
  s_interp_max :: real

definition reset :: "precomputed_values \<Rightarrow> nat \<Rightarrow> limiter \<Rightarrow> limiter" where
  "reset pv i st =
     (let rho_min = scalar_max;
          rho_max = 0;
          (s_i, eta_i) = pv i;
          s_min = s_i
      in st\<lparr>bounds_member := (rho_min, rho_max, s_min),
            rho_relaxation_numerator := 0,
            rho_relaxation_denominator := 0,
            s_interp_max := 0\<rparr>)"

text \<open>
  \<open>accumulate\<close> ignores its two flux arguments; they are left out. \<open>js\<close> points at the
  neighbour's index. The two \<open>+=\<close> on the relaxation sums are double operations: the sum
  \<open>rho_i + rho_j\<close>, its product with \<open>beta_ij\<close> and the addition to the running sum round
  one after the other.
\<close>

definition accumulate ::
  "hyperbolic_system \<Rightarrow> precomputed_values \<Rightarrow>
   nat \<Rightarrow> state_type \<Rightarrow> state_type \<Rightarrow> tensor \<Rightarrow> real \<Rightarrow> limiter \<Rightarrow> limiter" where
  "accumulate hs pv js U_i U_j scaled_c_ij beta_ij st =
     (let (rho_min, rho_max, s_min) = bounds_member st;
          rho_i = density hs U_i;
          m_i = momentum hs U_i;
          rho_j = density hs U_j;
          m_j = momentum hs U_j;
          rho_ij_bar = (1 / 2) * (rho_i + rho_j + tensor_dot (tensor_sub m_i m_j) scaled_c_ij);
          (s_j, eta_j) = pv js;
          s_interp = specific_entropy hs (tensor_scale (tensor_add U_i U_j) (1 / 2))
      in st\<lparr>bounds_member := (min rho_min rho_ij_bar, max rho_max rho_ij_bar, min s_min s_j),
            rho_relaxation_numerator :=
              round_double (rho_relaxation_numerator st
                            + round_double (beta_ij * round_double (rho_i + rho_j))),
            rho_relaxation_denominator :=
              round_double (rho_relaxation_denominator st + \<bar>beta_ij\<bar>),
            s_interp_max := max (s_interp_max st) s_interp\<rparr>)"

text \<open>
  The relaxation radius \<open>r_i\<close> of \<open>apply_relaxation\<close>: the square root, then the
  \<open>if constexpr\<close> chain on the template parameter \<open>dim\<close> (here \<open>d\<close>), then the factor.
\<close>

definition relaxation_radius :: "nat \<Rightarrow> real \<Rightarrow> real \<Rightarrow> real" where
  "relaxation_radius d hd_i factor =
     (let r_i = sqrt hd_i;
          r_i = (if d = 2 then (sqrt r_i) ^ 3
                 else if d = 1 then r_i ^ 3
                 else r_i)
      in r_i * factor)"

text \<open>The divisor and the quotient \<open>rho_relaxation\<close> of \<open>apply_relaxation\<close>.\<close>

definition relaxation_divisor :: "limiter \<Rightarrow> real" where
  "relaxation_divisor st = \<bar>rho_relaxation_denominator st\<bar> + scalar_eps"

definition rho_relaxation :: "limiter \<Rightarrow> real" where
  "rho_relaxation st = \<bar>rho_relaxation_numerator st\<bar> / relaxation_divisor st"

definition apply_relaxation :: "nat \<Rightarrow> real \<Rightarrow> real \<Rightarrow> limiter \<Rightarrow> limiter" where
  "apply_relaxation d hd_i factor st =
     (let (rho_min, rho_max, s_min) = bounds_member st;
          r_i = relaxation_radius d hd_i factor;
          rho_min' = max ((1 - r_i) * rho_min) (rho_min - 2 * rho_relaxation st);
          rho_max' = min ((1 + r_i) * rho_max) (rho_max + 2 * rho_relaxation st);
          s_min' = max ((1 - r_i) * s_min) (2 * s_min - s_interp_max st)
      in st\<lparr>bounds_member := (rho_min', rho_max', s_min')\<rparr>)"

definition bounds :: "limiter \<Rightarrow> Bounds" where
  "bounds st = bounds_member st"

text \<open>
  \<open>is_in_invariant_domain\<close> names none of its parameters; its body is
  \<open>AssertThrow(false, dealii::ExcNotImplemented())\<close>, which throws in every build, so the
  trap and the \<open>return true\<close> behind it are never reached.
\<close>

definition is_in_invariant_domain ::
  "hyperbolic_system \<Rightarrow> Bounds \<Rightarrow> state_type \<Rightarrow> error + bool" where
  "is_in_invariant_domain hs bnds U = Inl ExcNotImplemented"

text \<open>
  One stencil row, as in the usage note of the class: each entry of the row is one
  \<open>accumulate\<close> call with its arguments.
\<close>

type_synonym accumulate_call = "nat \<times> state_type \<times> state_type \<times> tensor \<times> real"

definition accumulate_call ::
  "hyperbolic_system \<Rightarrow> precomputed_values \<Rightarrow> accumulate_call \<Rightarrow> limiter \<Rightarrow> limiter" where
  "accumulate_call hs pv c st =
     (case c of (js, U_i, U_j, scaled_c_ij, beta_ij) \<Rightarrow>
        accumulate hs pv js U_i U_j scaled_c_ij beta_ij st)"

definition accumulate_row ::
  "hyperbolic_system \<Rightarrow> precomputed_values \<Rightarrow> nat \<Rightarrow> accumulate_call list \<Rightarrow> limiter \<Rightarrow> limiter" where
  "accumulate_row hs pv i row st = fold (accumulate_call hs pv) row (reset pv i st)"

definition stencil_bounds ::
  "hyperbolic_system \<Rightarrow> precomputed_values \<Rightarrow> nat \<Rightarrow> nat \<Rightarrow> accumulate_call list \<Rightarrow>
   real \<Rightarrow> real \<Rightarrow> limiter \<Rightarrow> Bounds" where
  "stencil_bounds hs pv d i row hd_i factor st =
     bounds (apply_relaxation d hd_i factor (accumulate_row hs pv i row st))"

text \<open>
  What one \<open>accumulate\<close> call does to the bounds and to the largest interpolated entropy,
  the four fields that it updates with \<open>min\<close> and \<open>max\<close>: the call itself, run on a state
  that holds these fields and empty sums.
\<close>

definition accumulate_extrema ::
  "hyperbolic_system \<Rightarrow> precomputed_values \<Rightarrow> accumulate_call \<Rightarrow> Bounds \<times> real \<Rightarrow> Bounds \<times> real" where
  "accumulate_extrema hs pv c x =
     (let st = accumulate_call hs pv c
                 \<lparr>bounds_member = fst x, rho_relaxation_numerator = 0,
                  rho_relaxation_denominator = 0, s_interp_max = snd x\<rparr>
      in (bounds_member st, s_interp_max st))"

text \<open>Readers of the density interval, and the edge estimate that \<open>accumulate\<close> computes.\<close>

definition rho_min_of :: "limiter \<Rightarrow> real" where
  "rho_min_of st = fst (bounds st)"

definition rho_max_of :: "limiter \<Rightarrow> real" where
  "rho_max_of st = fst (snd (bounds st))"

definition rho_ij_bar :: "hyperbolic_system \<Rightarrow> state_type \<Rightarrow> state_type \<Rightarrow> tensor \<Rightarrow> real" where
  "rho_ij_bar hs U_i U_j scaled_c_ij =
     (1 / 2) * (density hs U_i + density hs U_j
                + tensor_dot (tensor_sub (momentum hs U_i) (momentum hs U_j)) scaled_c_ij)"

text \<open>
  A one-dimensional instance of the external state algebra for the concrete scenarios:
  a state is \<open>[rho, m, s]\<close>, and its third component stands for the specific entropy.
  \<open>blank\<close> is a limiter before its first \<open>reset\<close>.
\<close>

definition scenario_system :: hyperbolic_system where
  "scenario_system =
     \<lparr>density = (\<lambda>U. U ! 0), momentum = (\<lambda>U. [U ! 1]), specific_entropy = (\<lambda>U. U ! 2)\<rparr>"

definition blank :: limiter where
  "blank = \<lparr>bounds_member = (0, 0, 0), rho_relaxation_numerator = 0,
            rho_relaxation_denominator = 0, s_interp_max = 0\<rparr>"

section \<open>The limiter: the coefficient\<close>

text \<open>
  \<open>Limiter::limit\<close> is declared in the class, but its definition is not among the sources.
  The three definitions below follow the three steps of section 4.2 of the specification.
\<close>

text \<open>
  Modelled from the spec: step 1 of \<open>limit\<close>, whose definition is missing. Density is affine
  in \<open>t\<close>, so the two inequalities \<open>rho_min \<le> rho(U) + t rho(P) \<le> rho_max\<close> are solved
  exactly, by the sign of \<open>rho(P)\<close>; the interval \<open>[t_min, t_max]\<close> shrinks to the solutions,
  and an empty interval collapses to \<open>t_min\<close>.
\<close>

definition density_interval ::
  "hyperbolic_system \<Rightarrow> Bounds \<Rightarrow> state_type \<Rightarrow> state_type \<Rightarrow> real \<Rightarrow> real \<Rightarrow> real \<times> real" where
  \<comment> \<open>Step 1: density is affine in \<open>t\<close>; the two linear inequalities are solved exactly,
      and an empty interval collapses to \<open>t_min\<close>.\<close>
  "density_interval hs bnds U P t_min t_max =
     (let (rho_min, rho_max, s_min) = bnds;
          rho_U = density hs U;
          rho_P = density hs P;
          (lo, hi) =
            (if 0 < rho_P then ((rho_min - rho_U) / rho_P, (rho_max - rho_U) / rho_P)
             else if rho_P < 0 then ((rho_max - rho_U) / rho_P, (rho_min - rho_U) / rho_P)
             else if rho_min \<le> rho_U \<and> rho_U \<le> rho_max then (t_min, t_max)
             else (t_max, t_min));
          t_l = max t_min lo;
          t_r = min t_max hi
      in if t_l \<le> t_r then (t_l, t_r) else (t_min, t_min))"

text \<open>
  Modelled from the spec: step 2 of \<open>limit\<close>, whose definition is missing. The specification
  does not give the formula of the Newton step, so the step is a parameter: from the bracket
  it proposes the next point. \<open>n\<close> is what is left of the iteration budget.
\<close>

fun newton_iteration ::
  "(real \<Rightarrow> real) \<Rightarrow> (real \<Rightarrow> real \<Rightarrow> real) \<Rightarrow> real \<Rightarrow> nat \<Rightarrow> real \<Rightarrow> real \<Rightarrow> real" where
  \<comment> \<open>Step 2: a Newton step, replaced by a bisection step when it leaves the bracket; the
      bracket is updated from the sign of \<open>Psi\<close> at the new point; the iteration stops
      below the tolerance or when the budget is used up, with the feasible end.\<close>
  "newton_iteration Psi newton_step tolerance 0 t_l t_r = t_l"
| "newton_iteration Psi newton_step tolerance (Suc n) t_l t_r =
     (let t_n = newton_step t_l t_r;
          t = (if t_l \<le> t_n \<and> t_n \<le> t_r then t_n else (t_l + t_r) / 2)
      in if 0 \<le> Psi t
         then (if \<bar>Psi t\<bar> < tolerance then t
               else newton_iteration Psi newton_step tolerance n t t_r)
         else (if \<bar>Psi t\<bar> < tolerance then t_l
               else newton_iteration Psi newton_step tolerance n t_l t))"

text \<open>
  Modelled from the spec: \<open>limit\<close> itself, whose definition is missing. It returns the
  largest admissible \<open>t\<close>, so a right end of the density interval with \<open>Psi \<ge> 0\<close> is
  returned as it is; otherwise the iteration runs from the bracket of step 1. Step 3 clamps
  the result to \<open>[t_min, t_max]\<close>.
\<close>

definition limit ::
  "hyperbolic_system \<Rightarrow> real \<Rightarrow> bool \<Rightarrow> (real \<Rightarrow> real \<Rightarrow> real) \<Rightarrow>
   Bounds \<Rightarrow> state_type \<Rightarrow> state_type \<Rightarrow> real \<Rightarrow> nat \<Rightarrow> real \<Rightarrow> real \<Rightarrow> real \<times> bool" where
  \<comment> \<open>\<open>gamma\<close> is the exponent of \<open>Psi\<close>; \<open>entropy_limiting\<close> switches step 2 on.
      Step 3 clamps the result. The flag reports the state at \<open>t_min\<close>.\<close>
  "limit hs gamma entropy_limiting newton_step bnds U P tolerance max_iterations t_min t_max =
     (let (rho_min, rho_max, s_min) = bnds;
          state_at = (\<lambda>t. tensor_add U (tensor_scale P t));
          Psi = (\<lambda>t. density hs (state_at t) powr (gamma + 1)
                       * (specific_entropy hs (state_at t) - s_min));
          (t_l, t_r) = density_interval hs bnds U P t_min t_max;
          t = (if entropy_limiting
               then (if 0 \<le> Psi t_r then t_r
                     else newton_iteration Psi newton_step tolerance max_iterations t_l t_r)
               else t_r);
          t_star = max t_min (min t_max t);
          feasible = (rho_min \<le> density hs (state_at t_min)
                      \<and> density hs (state_at t_min) \<le> rho_max
                      \<and> s_min \<le> specific_entropy hs (state_at t_min))
      in (t_star, feasible))"

section \<open>The mesh adaptor\<close>

text \<open>
  The three strategy enumerations are declared in \<open>mesh_adaptor.h\<close>, which is not among the
  sources. Each is given the enumerators that the code names and one more constructor for
  every other value of the underlying integer type.
\<close>

text \<open>
  Modelled from the spec: the missing declaration of \<open>AdaptationStrategy\<close>; the last
  constructor is the unrecognized adaptation strategy of section 7.
\<close>

datatype AdaptationStrategy =
  global_refinement | random_adaptation | unrecognized_adaptation nat

text \<open>
  Modelled from the spec: the missing declaration of \<open>MarkingStrategy\<close>; the last
  constructor is the unrecognized marking strategy of section 7.
\<close>

datatype MarkingStrategy =
  fixed_number | unrecognized_marking nat

text \<open>
  Modelled from the spec: the missing declaration of \<open>TimePointSelectionStrategy\<close>, with a
  constructor for an unrecognized value as in the two enumerations above.
\<close>

datatype TimePointSelectionStrategy =
  fixed_adaptation_time_points | unrecognized_time_point_selection nat

text \<open>
  The members of \<open>MeshAdaptor\<close> that the three functions touch (each ends in an underscore
  in the class). The generator state has an abstract type.
\<close>

record 'g MeshAdaptor =
  adaptation_strategy :: AdaptationStrategy
  marking_strategy :: MarkingStrategy
  time_point_selection_strategy :: TimePointSelectionStrategy
  fixed_number_refinement_fraction :: real
  fixed_number_coarsening_fraction :: real
  adaptation_time_points :: "real list"
  need_mesh_adaptation :: bool
  mersenne_twister :: 'g

text \<open>An active cell with its two flags; the triangulation is the list of its active cells.\<close>

record cell =
  refine_flag :: bool
  coarsen_flag :: bool

type_synonym triangulation = "cell list"

definition set_refine_flag :: "cell \<Rightarrow> cell" where
  "set_refine_flag c = c\<lparr>refine_flag := True\<rparr>"

definition prepare :: "real \<Rightarrow> 'g MeshAdaptor \<Rightarrow> error + 'g MeshAdaptor" where
  \<comment> \<open>\<open>remove_if\<close> and \<open>erase\<close> drop the time points with \<open>t > t_refinement\<close>; the
      \<open>default\<close> branch does nothing\<close>
  "prepare t ma =
     (let ma' = (case time_point_selection_strategy ma of
                   fixed_adaptation_time_points \<Rightarrow>
                     ma\<lparr>adaptation_time_points :=
                          filter (\<lambda>t_refinement. \<not> t > t_refinement) (adaptation_time_points ma)\<rparr>
                 | _ \<Rightarrow> ma)
      in Inr (ma'\<lparr>need_mesh_adaptation := False\<rparr>))"

fun remove_past :: "real \<Rightarrow> real list \<Rightarrow> bool \<Rightarrow> real list \<times> bool" where
  \<comment> \<open>the \<open>remove_if\<close> of \<open>analyze\<close>: its predicate also raises the flag\<close>
  "remove_past t [] need = ([], need)"
| "remove_past t (t_refinement # rest) need =
     (if t < t_refinement
      then (let (kept, need') = remove_past t rest need in (t_refinement # kept, need'))
      else remove_past t rest True)"

definition analyze :: "real \<Rightarrow> 'g MeshAdaptor \<Rightarrow> error + 'g MeshAdaptor" where
  "analyze t ma =
     (case time_point_selection_strategy ma of
        fixed_adaptation_time_points \<Rightarrow>
          (let (kept, need) = remove_past t (adaptation_time_points ma) (need_mesh_adaptation ma)
           in Inr (ma\<lparr>adaptation_time_points := kept, need_mesh_adaptation := need\<rparr>))
      | _ \<Rightarrow> Inl ExcInternalError)"

fun generate :: "('g \<Rightarrow> real \<times> 'g) \<Rightarrow> nat \<Rightarrow> 'g \<Rightarrow> real list \<times> 'g" where
  \<comment> \<open>\<open>std::generate\<close>: one draw per indicator, in order\<close>
  "generate distribution 0 g = ([], g)"
| "generate distribution (Suc n) g =
     (let (x, g') = distribution g;
          (xs, g'') = generate distribution n g'
      in (x # xs, g''))"

text \<open>
  \<open>distribution\<close> draws from the generator and \<open>refine_and_coarsen_fixed_number\<close> is
  deal.II's marking routine; both are parameters. \<open>own_triangulation\<close> is the condition of
  the opening \<open>Assert\<close>, which only a debug build checks: a release build behaves as with
  \<open>True\<close>.
\<close>

definition mark_cells_for_coarsening_and_refinement ::
  "('g \<Rightarrow> real \<times> 'g) \<Rightarrow> (triangulation \<Rightarrow> real list \<Rightarrow> real \<Rightarrow> real \<Rightarrow> triangulation) \<Rightarrow>
   bool \<Rightarrow> 'g MeshAdaptor \<Rightarrow> triangulation \<Rightarrow> error + triangulation \<times> 'g" where
  "mark_cells_for_coarsening_and_refinement distribution refine_and_coarsen_fixed_number
       own_triangulation ma tria =
     (if \<not> own_triangulation then Inl ExcInternalError
      else case adaptation_strategy ma of
        global_refinement \<Rightarrow> Inr (map set_refine_flag tria, mersenne_twister ma)
      | random_adaptation \<Rightarrow>
          (let (indicators, g) = generate distribution (length tria) (mersenne_twister ma)
           in case marking_strategy ma of
                fixed_number \<Rightarrow>
                  Inr (refine_and_coarsen_fixed_number tria indicators
                         (fixed_number_refinement_fraction ma)
                         (fixed_number_coarsening_fraction ma), g)
              | _ \<Rightarrow> Inl ExcInternalError)
      | _ \<Rightarrow> Inl ExcInternalError)"

text \<open>
  The constructor's defaults, before any parameter file is read; \<open>seed\<close> stands for
  \<open>mersenne_twister_.seed\<close>.
\<close>

definition constructed :: "(nat \<Rightarrow> 'g) \<Rightarrow> 'g MeshAdaptor" where
  "constructed seed =
     \<lparr>adaptation_strategy = global_refinement,
      marking_strategy = fixed_number,
      time_point_selection_strategy = fixed_adaptation_time_points,
      fixed_number_refinement_fraction = 3 / 10,
      fixed_number_coarsening_fraction = 3 / 10,
      adaptation_time_points = [],
      need_mesh_adaptation = False,
      mersenne_twister = seed 42\<rparr>"

section \<open>Facts about the accumulator\<close>

lemma scalar_eps_pos: "0 < scalar_eps"
  by (simp add: scalar_eps_def)

lemma rho_min_accumulate:
  "rho_min_of (accumulate hs pv js U_i U_j c beta st) = min (rho_min_of st) (rho_ij_bar hs U_i U_j c)"
  by (simp add: accumulate_def rho_min_of_def bounds_def rho_ij_bar_def Let_def case_prod_beta)

lemma rho_max_accumulate:
  "rho_max_of (accumulate hs pv js U_i U_j c beta st) = max (rho_max_of st) (rho_ij_bar hs U_i U_j c)"
  by (simp add: accumulate_def rho_max_of_def bounds_def rho_ij_bar_def Let_def case_prod_beta)

lemma accumulate_call_brackets:
  "rho_min_of (accumulate_call hs pv c st) \<le> rho_max_of (accumulate_call hs pv c st)"
proof -
  obtain js U_i U_j cij beta where c: "c = (js, U_i, U_j, cij, beta)" by (cases c)
  have "min (rho_min_of st) (rho_ij_bar hs U_i U_j cij) \<le> rho_ij_bar hs U_i U_j cij" by simp
  also have "\<dots> \<le> max (rho_max_of st) (rho_ij_bar hs U_i U_j cij)" by simp
  finally show ?thesis
    by (simp add: c accumulate_call_def rho_min_accumulate rho_max_accumulate)
qed

lemma accumulate_call_rho_max_nonneg:
  "0 \<le> rho_max_of st \<Longrightarrow> 0 \<le> rho_max_of (accumulate_call hs pv c st)"
  by (cases c) (simp add: accumulate_call_def rho_max_accumulate le_max_iff_disj)

lemma fold_rho_max_nonneg:
  "0 \<le> rho_max_of st \<Longrightarrow> 0 \<le> rho_max_of (fold (accumulate_call hs pv) row st)"
  by (induction row arbitrary: st) (simp_all add: accumulate_call_rho_max_nonneg)

lemma fold_brackets:
  "row \<noteq> [] \<Longrightarrow>
   rho_min_of (fold (accumulate_call hs pv) row st) \<le> rho_max_of (fold (accumulate_call hs pv) row st)"
proof (induction row arbitrary: st rule: rev_induct)
  case Nil
  then show ?case by simp
next
  case (snoc c row)
  show ?case by (simp add: accumulate_call_brackets)
qed

lemma reset_rho_max: "rho_max_of (reset pv i st) = 0"
  by (simp add: reset_def rho_max_of_def bounds_def split: prod.splits)

lemma rho_relaxation_nonneg: "0 \<le> rho_relaxation st"
  using scalar_eps_pos by (simp add: rho_relaxation_def relaxation_divisor_def)

lemma relaxation_radius_nonneg:
  "0 \<le> hd_i \<Longrightarrow> 0 \<le> factor \<Longrightarrow> 0 \<le> relaxation_radius d hd_i factor"
  by (simp add: relaxation_radius_def Let_def)

lemma relaxation_radius_closed_form:
  assumes "d \<in> {1, 2, 3}" and "0 \<le> hd_i"
  shows "relaxation_radius d hd_i factor = factor * hd_i powr (3 / (2 * real d))"
proof -
  have s: "sqrt hd_i = hd_i powr (1 / 2)"
    using assms(2) by (simp add: powr_half_sqrt)
  have c: "(x powr a) ^ 3 = x powr (3 * a)" for x a :: real
    by (metis mult.commute powr_numeral powr_powr powr_ge_zero)
  have q: "sqrt (hd_i powr (1 / 2)) = hd_i powr (1 / 4)"
    by (simp add: powr_half_sqrt [symmetric] powr_powr)
  from assms(1) consider "d = 1" | "d = 2" | "d = 3" by auto
  then show ?thesis
    by cases (simp_all add: relaxation_radius_def s c q)
qed

lemma apply_relaxation_ordered:
  assumes ord: "rho_min_of st \<le> rho_max_of st"
    and mx: "0 \<le> rho_max_of st"
    and r0: "0 \<le> relaxation_radius d hd_i factor"
    and r1: "relaxation_radius d hd_i factor \<le> 1 \<or> 0 \<le> rho_min_of st"
  shows "rho_min_of (apply_relaxation d hd_i factor st)
       \<le> rho_max_of (apply_relaxation d hd_i factor st)"
proof -
  obtain a b c where bm: "bounds_member st = (a, b, c)" by (cases "bounds_member st")
  define r where "r = relaxation_radius d hd_i factor"
  define m where "m = rho_relaxation st"
  have ab: "a \<le> b" and b0: "0 \<le> b"
    using ord mx bm by (simp_all add: rho_min_of_def rho_max_of_def bounds_def)
  have m0: "0 \<le> m" unfolding m_def by (rule rho_relaxation_nonneg)
  have rr: "0 \<le> r" using r0 by (simp add: r_def)
  have up1: "b \<le> (1 + r) * b" using rr b0 by (simp add: algebra_simps mult_nonneg_nonneg)
  have up2: "b \<le> b + 2 * m" using m0 by simp
  have lo2: "a - 2 * m \<le> b" using ab m0 by simp
  have lo1: "(1 - r) * a \<le> b"
  proof (cases "0 \<le> a")
    case True
    then have "r * a \<ge> 0" using rr by (simp add: mult_nonneg_nonneg)
    then have "(1 - r) * a \<le> a" by (simp add: algebra_simps)
    then show ?thesis using ab by simp
  next
    case False
    then have "r \<le> 1" using r1 bm by (simp add: r_def rho_min_of_def bounds_def)
    then have "(1 - r) * a \<le> 0" using False by (simp add: mult_nonneg_nonpos)
    then show ?thesis using b0 by simp
  qed
  have "max ((1 - r) * a) (a - 2 * m) \<le> min ((1 + r) * b) (b + 2 * m)"
    using up1 up2 lo1 lo2 by simp
  then show ?thesis
    by (simp add: apply_relaxation_def rho_min_of_def rho_max_of_def bounds_def bm Let_def
        r_def m_def)
qed

lemma accumulate_fields:
  "bounds_member (accumulate hs pv js U_i U_j c beta st) =
     (min (fst (bounds_member st)) (rho_ij_bar hs U_i U_j c),
      max (fst (snd (bounds_member st))) (rho_ij_bar hs U_i U_j c),
      min (snd (snd (bounds_member st))) (fst (pv js)))"
  "rho_relaxation_numerator (accumulate hs pv js U_i U_j c beta st) =
     round_double (rho_relaxation_numerator st
                   + round_double (beta * round_double (density hs U_i + density hs U_j)))"
  "rho_relaxation_denominator (accumulate hs pv js U_i U_j c beta st) =
     round_double (rho_relaxation_denominator st + \<bar>beta\<bar>)"
  "s_interp_max (accumulate hs pv js U_i U_j c beta st) =
     max (s_interp_max st)
         (specific_entropy hs (tensor_scale (tensor_add U_i U_j) (1 / 2)))"
  by (simp_all add: accumulate_def rho_ij_bar_def Let_def case_prod_beta)

lemma extrema_accumulate_call:
  "(bounds_member (accumulate_call hs pv c st), s_interp_max (accumulate_call hs pv c st))
   = accumulate_extrema hs pv c (bounds_member st, s_interp_max st)"
  by (cases c) (simp add: accumulate_extrema_def accumulate_call_def accumulate_fields)

lemma extrema_fold:
  "(bounds_member (fold (accumulate_call hs pv) row st),
    s_interp_max (fold (accumulate_call hs pv) row st))
   = fold (accumulate_extrema hs pv) row (bounds_member st, s_interp_max st)"
proof (induction row arbitrary: st)
  case Nil
  show ?case by simp
next
  case (Cons c row)
  show ?case
    by (simp only: fold_simps Cons.IH extrema_accumulate_call)
qed

lemma accumulate_extrema_value:
  "accumulate_extrema hs pv (js, U_i, U_j, c, beta) ((lo, hi, s), e) =
     ((min lo (rho_ij_bar hs U_i U_j c), max hi (rho_ij_bar hs U_i U_j c), min s (fst (pv js))),
      max e (specific_entropy hs (tensor_scale (tensor_add U_i U_j) (1 / 2))))"
  by (simp add: accumulate_extrema_def accumulate_call_def accumulate_fields)

lemma accumulate_extrema_commute:
  "accumulate_extrema hs pv a (accumulate_extrema hs pv b x) =
   accumulate_extrema hs pv b (accumulate_extrema hs pv a x)"
proof -
  obtain js U_i U_j c beta where a: "a = (js, U_i, U_j, c, beta)" by (cases a)
  obtain js' U_i' U_j' c' beta' where b: "b = (js', U_i', U_j', c', beta')" by (cases b)
  obtain lo hi s e where x: "x = ((lo, hi, s), e)" by (cases x) auto
  show ?thesis
    by (simp only: a b x accumulate_extrema_value prod.inject min.assoc max.assoc
        min.commute [of "rho_ij_bar hs U_i U_j c"] max.commute [of "rho_ij_bar hs U_i U_j c"]
        min.commute [of "fst (pv js)"]
        max.commute [of "specific_entropy hs (tensor_scale (tensor_add U_i U_j) (1 / 2))"])
qed

text \<open>Rounding to double, evaluated: the binade of the argument fixes the spacing.\<close>

lemma double_exponent_eq:
  assumes "2 ^ k \<le> \<bar>x\<bar>" and "\<bar>x\<bar> < 2 ^ Suc k"
  shows "double_exponent x = int k"
proof -
  have pos: "0 < \<bar>x\<bar>"
    using assms(1) by (rule less_le_trans [rotated]) simp
  have "2 powr real k \<le> \<bar>x\<bar>"
    using assms(1) by (simp add: powr_realpow)
  then have lo: "real k \<le> log 2 \<bar>x\<bar>"
    using pos by (simp add: le_log_iff)
  have "\<bar>x\<bar> < 2 powr real (Suc k)"
    using assms(2) by (simp only: powr_realpow [of 2 "Suc k"] zero_less_numeral)
  then have "log 2 \<bar>x\<bar> < real (Suc k)"
    using pos by (simp only: log_less_iff [of 2] one_less_numeral_iff num.simps rel_simps)
  then have hi: "log 2 \<bar>x\<bar> < real k + 1" by simp
  have "\<lfloor>log 2 \<bar>x\<bar>\<rfloor> = int k"
    using lo hi by (simp add: floor_eq_iff)
  then show ?thesis
    by (simp add: double_exponent_def)
qed

lemma round_double_eq:
  assumes "2 ^ k \<le> \<bar>x\<bar>" and "\<bar>x\<bar> < 2 ^ Suc k"
  shows "round_double x = of_int (round_to_even (x * 2 ^ 52 / 2 ^ k)) * 2 ^ k / 2 ^ 52"
proof -
  have "0 < \<bar>x\<bar>"
    using assms(1) by (rule less_le_trans [rotated]) simp
  then have x0: "x \<noteq> 0"
    by simp
  have "2 powr (real k - 52) = 2 powr (real k) / 2 powr 52"
    by (simp add: powr_diff)
  also have "\<dots> = 2 ^ k / 2 ^ 52"
    by (simp add: powr_realpow)
  finally have u: "2 powr (real k - 52) = 2 ^ k / 2 ^ 52" .
  have "round_double x
      = of_int (round_to_even (x / (2 ^ k / 2 ^ 52))) * (2 ^ k / 2 ^ 52)"
    using x0 by (simp only: round_double_def double_exponent_eq [OF assms] Let_def if_False
        of_int_of_nat_eq u)
  then show ?thesis by simp
qed

lemma round_double_values:
  "round_double 0 = 0"
  "round_double 1 = 1"
  "round_double 2 = 2"
  "round_double 3 = 3"
  "round_double 4 = 4"
  "round_double 4503599627370496 = 4503599627370496"
  "round_double 9007199254740992 = 9007199254740992"
  "round_double 9007199254740993 = 9007199254740992"
  "round_double 9007199254740994 = 9007199254740994"
  using round_double_eq [of 0 1] round_double_eq [of 1 2] round_double_eq [of 1 3]
    round_double_eq [of 2 4] round_double_eq [of 52 4503599627370496]
    round_double_eq [of 53 9007199254740992] round_double_eq [of 53 9007199254740993]
    round_double_eq [of 53 9007199254740994]
  by (simp_all add: round_to_even_def round_double_def)

lemmas scenario_simps =
  accumulate_row_def bounds_def reset_def blank_def scalar_max_def accumulate_call_def
  accumulate_def scenario_system_def tensor_dot_def tensor_sub_def tensor_add_def
  tensor_scale_def Let_def round_double_values

section \<open>The invariant-domain check\<close>

text \<open>
  Claim C1. The specification wants \<open>is_in_invariant_domain\<close> to return true exactly when the
  density lies in \<open>[rho_min, rho_max]\<close> and the specific entropy is at least \<open>s_min\<close>, and
  to be implemented completely. The code is a stub: for the bounds \<open>(0.9, 1.1, 2.0)\<close> and a
  state of density \<open>1.0\<close> and specific entropy \<open>2.5\<close>, which lies inside the domain, it
  throws \<open>ExcNotImplemented\<close> instead of returning true.
\<close>

theorem is_in_invariant_domain_stub:
  "9 / 10 \<le> density scenario_system [1, 0, 5 / 2]
   \<and> density scenario_system [1, 0, 5 / 2] \<le> 11 / 10
   \<and> 2 \<le> specific_entropy scenario_system [1, 0, 5 / 2]
   \<and> is_in_invariant_domain scenario_system (9 / 10, 11 / 10, 2) [1, 0, 5 / 2]
       = Inl ExcNotImplemented
   \<and> is_in_invariant_domain scenario_system (9 / 10, 11 / 10, 2) [1, 0, 5 / 2] \<noteq> Inr True"
  by (simp add: is_in_invariant_domain_def scenario_system_def)

text \<open>
  Claim C2. No operation of the core is to raise an exception. \<open>reset\<close>, \<open>accumulate\<close>,
  \<open>apply_relaxation\<close> and \<open>bounds\<close> have no failing branch, but \<open>is_in_invariant_domain\<close>
  throws \<open>ExcNotImplemented\<close> on every input.
\<close>

theorem is_in_invariant_domain_always_throws:
  "is_in_invariant_domain hs bnds U = Inl ExcNotImplemented"
  by (simp add: is_in_invariant_domain_def)

section \<open>Relaxation\<close>

text \<open>
  Claim C3. For a dimension \<open>d\<close> in \<open>{1, 2, 3}\<close> and a cell measure \<open>hd_i \<ge> 0\<close>,
  \<open>apply_relaxation\<close> computes the radius \<open>r = factor * hd_i^(3/(2d))\<close> and the magnitude
  \<open>m = |numerator| / (|denominator| + eps)\<close> with the machine epsilon, and replaces the
  bounds by \<open>max((1-r) rho_min, rho_min - 2m)\<close>, \<open>min((1+r) rho_max, rho_max + 2m)\<close> and
  \<open>max((1-r) s_min, 2 s_min - s_interp_max)\<close>.
\<close>

theorem apply_relaxation_formula:
  assumes "d \<in> {1, 2, 3}" and "0 \<le> hd_i" and "bounds st = (rho_min, rho_max, s_min)"
  shows "relaxation_radius d hd_i factor = factor * hd_i powr (3 / (2 * real d))
    \<and> rho_relaxation st
        = \<bar>rho_relaxation_numerator st\<bar> / (\<bar>rho_relaxation_denominator st\<bar> + 1 / 2 ^ 52)
    \<and> bounds (apply_relaxation d hd_i factor st) =
        (max ((1 - factor * hd_i powr (3 / (2 * real d))) * rho_min)
             (rho_min - 2 * rho_relaxation st),
         min ((1 + factor * hd_i powr (3 / (2 * real d))) * rho_max)
             (rho_max + 2 * rho_relaxation st),
         max ((1 - factor * hd_i powr (3 / (2 * real d))) * s_min)
             (2 * s_min - s_interp_max st))"
proof -
  have bm: "bounds_member st = (rho_min, rho_max, s_min)"
    using assms(3) by (simp add: bounds_def)
  have r: "relaxation_radius d hd_i factor = factor * hd_i powr (3 / (2 * real d))"
    using assms(1,2) by (rule relaxation_radius_closed_form)
  have m: "rho_relaxation st
        = \<bar>rho_relaxation_numerator st\<bar> / (\<bar>rho_relaxation_denominator st\<bar> + 1 / 2 ^ 52)"
    by (simp add: rho_relaxation_def relaxation_divisor_def scalar_eps_def)
  have b: "bounds (apply_relaxation d hd_i factor st) =
        (max ((1 - relaxation_radius d hd_i factor) * rho_min) (rho_min - 2 * rho_relaxation st),
         min ((1 + relaxation_radius d hd_i factor) * rho_max) (rho_max + 2 * rho_relaxation st),
         max ((1 - relaxation_radius d hd_i factor) * s_min) (2 * s_min - s_interp_max st))"
    by (simp add: apply_relaxation_def bounds_def bm Let_def)
  show ?thesis using r m b by simp
qed

theorem apply_relaxation_formula_witness:
  "(1::nat) \<in> {1, 2, 3} \<and> (0::real) \<le> 4
   \<and> bounds \<lparr>bounds_member = (1, 2, 3), rho_relaxation_numerator = 4,
               rho_relaxation_denominator = 2, s_interp_max = 5\<rparr> = (1, 2, 3)
   \<and> relaxation_radius 1 4 2 = 2 * 4 powr (3 / (2 * real 1))
   \<and> relaxation_radius 1 4 2 = 16"
  using apply_relaxation_formula [of 1 4 "\<lparr>bounds_member = (1, 2, 3), rho_relaxation_numerator = 4,
               rho_relaxation_denominator = 2, s_interp_max = 5\<rparr>" 1 2 3 2]
  by (simp add: bounds_def relaxation_radius_def)

text \<open>
  Claim C10. The divisor \<open>|rho_relaxation_denominator| + eps\<close> of \<open>apply_relaxation\<close> is
  strictly positive in every limiter state, so the quotient is a true quotient; right after
  \<open>reset\<close>, with no \<open>accumulate\<close> call, the divisor is the machine epsilon and the
  quotient is zero.
\<close>

theorem relaxation_divisor_positive:
  "0 < relaxation_divisor st
   \<and> rho_relaxation st * relaxation_divisor st = \<bar>rho_relaxation_numerator st\<bar>
   \<and> relaxation_divisor (reset pv i st) = 1 / 2 ^ 52
   \<and> rho_relaxation (reset pv i st) = 0"
proof -
  have pos: "0 < relaxation_divisor st"
    using scalar_eps_pos by (simp add: relaxation_divisor_def add_nonneg_pos)
  have "rho_relaxation st * relaxation_divisor st = \<bar>rho_relaxation_numerator st\<bar>"
    using pos by (simp add: rho_relaxation_def)
  moreover have "relaxation_divisor (reset pv i st) = 1 / 2 ^ 52"
    by (simp add: relaxation_divisor_def reset_def scalar_eps_def split: prod.splits)
  moreover have "rho_relaxation (reset pv i st) = 0"
    by (simp add: rho_relaxation_def reset_def split: prod.splits)
  ultimately show ?thesis using pos by simp
qed

text \<open>
  The amended form of claim C4 below asks for a factor that is not negative. With the factor
  \<open>-1\<close> the relaxation narrows the interval: one edge estimate of \<open>1\<close> ends with
  \<open>rho_max = 0\<close> below \<open>rho_min = 2\<close>.
\<close>

lemma negative_factor_bounds_not_ordered:
  "fst (snd (stencil_bounds scenario_system (\<lambda>_. (0, 0)) 1 0
              [(1, [1, 0, 0], [1, 0, 0], [0], 1)] 1 (-1) blank))
   < fst (stencil_bounds scenario_system (\<lambda>_. (0, 0)) 1 0
              [(1, [1, 0, 0], [1, 0, 0], [0], 1)] 1 (-1) blank)"
  by (simp add: stencil_bounds_def apply_relaxation_def relaxation_radius_def rho_relaxation_def
      relaxation_divisor_def scalar_eps_def scenario_simps)

text \<open>
  Claim C4, as stated, fails, in dimension 1 with cell measure \<open>1\<close> and the default factor
  \<open>2\<close>. After \<open>reset\<close> and \<open>apply_relaxation\<close> with no \<open>accumulate\<close> call in between, the
  bounds still hold \<open>rho_max = 0\<close> below \<open>rho_min\<close>, the largest double. And after one
  \<open>accumulate\<close> call whose edge estimate is \<open>1/2 (1 + 1 + (4 - 0) (-1)) = -1\<close>, the
  relaxation with radius \<open>2\<close> turns \<open>rho_min = -1\<close> into \<open>1\<close>, above \<open>rho_max = 0\<close>.
\<close>

theorem relaxed_bounds_not_ordered:
  "fst (snd (stencil_bounds scenario_system (\<lambda>_. (0, 0)) 1 0 [] 1 2 blank))
   < fst (stencil_bounds scenario_system (\<lambda>_. (0, 0)) 1 0 [] 1 2 blank)
   \<and> fst (snd (stencil_bounds scenario_system (\<lambda>_. (0, 0)) 1 0
              [(1, [1, 4, 0], [1, 0, 0], [-1], 1)] 1 2 blank))
   < fst (stencil_bounds scenario_system (\<lambda>_. (0, 0)) 1 0
              [(1, [1, 4, 0], [1, 0, 0], [-1], 1)] 1 2 blank)"
  by (simp add: stencil_bounds_def apply_relaxation_def relaxation_radius_def rho_relaxation_def
      relaxation_divisor_def scalar_eps_def scenario_simps)

text \<open>
  Claim C4, amended. After \<open>reset\<close>, at least one \<open>accumulate\<close> call and
  \<open>apply_relaxation\<close> with a cell measure and a factor that are not negative, the bounds
  satisfy \<open>rho_min \<le> rho_max\<close>, provided the relaxation radius is at most \<open>1\<close> or the
  accumulated \<open>rho_min\<close> is not negative.
\<close>

theorem relaxed_bounds_ordered:
  assumes "row \<noteq> []" and "0 \<le> hd_i" and "0 \<le> factor"
    and "relaxation_radius d hd_i factor \<le> 1
         \<or> 0 \<le> fst (bounds (accumulate_row hs pv i row st))"
  shows "fst (stencil_bounds hs pv d i row hd_i factor st)
       \<le> fst (snd (stencil_bounds hs pv d i row hd_i factor st))"
proof -
  let ?acc = "accumulate_row hs pv i row st"
  have 1: "rho_min_of ?acc \<le> rho_max_of ?acc"
    unfolding accumulate_row_def using assms(1) by (rule fold_brackets)
  have 2: "0 \<le> rho_max_of ?acc"
    unfolding accumulate_row_def by (rule fold_rho_max_nonneg) (simp add: reset_rho_max)
  have 3: "0 \<le> relaxation_radius d hd_i factor"
    using assms(2,3) by (rule relaxation_radius_nonneg)
  have 4: "relaxation_radius d hd_i factor \<le> 1 \<or> 0 \<le> rho_min_of ?acc"
    using assms(4) by (simp add: rho_min_of_def)
  show ?thesis
    using apply_relaxation_ordered [OF 1 2 3 4]
    by (simp add: stencil_bounds_def rho_min_of_def rho_max_of_def bounds_def)
qed

theorem relaxed_bounds_ordered_witness:
  "[(1, [1, 0, 0], [1, 1, 0], [1 / 2], 1), (2, [1, 0, 0], [1, 1, 0], [- 1 / 2], 1)] \<noteq> []
   \<and> (0::real) \<le> 1
   \<and> relaxation_radius 1 1 1 \<le> 1
   \<and> fst (stencil_bounds scenario_system (\<lambda>_. (0, 0)) 1 0
            [(1, [1, 0, 0], [1, 1, 0], [1 / 2], 1), (2, [1, 0, 0], [1, 1, 0], [- 1 / 2], 1)]
            1 1 blank)
     \<le> fst (snd (stencil_bounds scenario_system (\<lambda>_. (0, 0)) 1 0
            [(1, [1, 0, 0], [1, 1, 0], [1 / 2], 1), (2, [1, 0, 0], [1, 1, 0], [- 1 / 2], 1)]
            1 1 blank))"
  using relaxed_bounds_ordered [of
      "[(1, [1, 0, 0], [1, 1, 0], [1 / 2], 1), (2, [1, 0, 0], [1, 1, 0], [- 1 / 2], 1)]"
      1 1 1 scenario_system "\<lambda>_. (0, 0)" 0 blank]
  by (simp add: relaxation_radius_def)

section \<open>Reset and accumulation\<close>

text \<open>
  Claim C5, as stated, fails in one point: \<open>reset\<close> does not store an infinite \<open>rho_min\<close>.
  It stores \<open>std::numeric_limits<ScalarNumber>::max()\<close>, a finite number below \<open>2^1024\<close>.
\<close>

theorem reset_rho_min_is_finite:
  "fst (bounds (reset (\<lambda>_. (0, 0)) 0 blank)) < 2 ^ 1024"
  by (simp add: reset_def bounds_def scalar_max_def)

text \<open>
  Claim C5, amended. After \<open>reset(i)\<close> the bounds hold \<open>rho_min\<close> = the largest finite value
  of the scalar type (\<open>(2 - 2^-52) * 2^1023\<close> for doubles), \<open>rho_max = 0\<close> and \<open>s_min\<close> = the
  precomputed specific entropy at node \<open>i\<close>, and the three relaxation temporaries are zero.
\<close>

theorem reset_values:
  "bounds (reset pv i st) = ((2 - 1 / 2 ^ 52) * 2 ^ 1023, 0, fst (pv i))
   \<and> rho_relaxation_numerator (reset pv i st) = 0
   \<and> rho_relaxation_denominator (reset pv i st) = 0
   \<and> s_interp_max (reset pv i st) = 0"
  by (simp add: reset_def bounds_def scalar_max_def split: prod.splits)

text \<open>
  Claim C6. Each \<open>accumulate\<close> call computes the edge estimate
  \<open>1/2 (rho(U_i) + rho(U_j) + (m(U_i) - m(U_j)) . c_ij)\<close> and widens \<open>rho_min\<close> and
  \<open>rho_max\<close> to include it. In dimension 1, after \<open>reset\<close> and two \<open>accumulate\<close> calls
  between two states of density \<open>1\<close> and momenta \<open>0\<close> and \<open>1\<close>, taken in both orientations,
  with edge coefficient \<open>1/2\<close> and weight \<open>1\<close>, the two estimates are \<open>3/4\<close> and \<open>5/4\<close>, and
  the bounds before relaxation are exactly \<open>rho_min = 3/4\<close> and \<open>rho_max = 5/4\<close>.
\<close>

theorem accumulate_edge_estimate:
  "fst (bounds (accumulate hs pv js U_i U_j scaled_c_ij beta_ij st))
     = min (fst (bounds st))
           (1 / 2 * (density hs U_i + density hs U_j
                     + tensor_dot (tensor_sub (momentum hs U_i) (momentum hs U_j)) scaled_c_ij))
   \<and> fst (snd (bounds (accumulate hs pv js U_i U_j scaled_c_ij beta_ij st)))
     = max (fst (snd (bounds st)))
           (1 / 2 * (density hs U_i + density hs U_j
                     + tensor_dot (tensor_sub (momentum hs U_i) (momentum hs U_j)) scaled_c_ij))
   \<and> bounds (accumulate_row scenario_system (\<lambda>_. (0, 0)) 0
        [(1, [1, 0, 0], [1, 1, 0], [1 / 2], 1), (2, [1, 1, 0], [1, 0, 0], [1 / 2], 1)] blank)
     = (3 / 4, 5 / 4, 0)"
proof -
  have "bounds (accumulate_row scenario_system (\<lambda>_. (0, 0)) 0
        [(1, [1, 0, 0], [1, 1, 0], [1 / 2], 1), (2, [1, 1, 0], [1, 0, 0], [1 / 2], 1)] blank)
     = (3 / 4, 5 / 4, 0)"
    by (simp add: scenario_simps)
  then show ?thesis
    using rho_min_accumulate [of hs pv js U_i U_j scaled_c_ij beta_ij st]
      rho_max_accumulate [of hs pv js U_i U_j scaled_c_ij beta_ij st]
    by (simp add: rho_min_of_def rho_max_of_def rho_ij_bar_def)
qed

section \<open>The order of the accumulate calls\<close>




text \<open>
  When the two sums come out the same as well, the whole state is the same, and so are the
  bounds after \<open>apply_relaxation\<close>.
\<close>

lemma relaxed_bounds_agree_if_sums_agree:
  assumes "mset row = mset row'"
    and "rho_relaxation_numerator (accumulate_row hs pv i row st)
         = rho_relaxation_numerator (accumulate_row hs pv i row' st)"
    and "rho_relaxation_denominator (accumulate_row hs pv i row st)
         = rho_relaxation_denominator (accumulate_row hs pv i row' st)"
  shows "stencil_bounds hs pv d i row hd_i factor st = stencil_bounds hs pv d i row' hd_i factor st"
proof -
  have "fold (accumulate_extrema hs pv) row = fold (accumulate_extrema hs pv) row'"
    by (rule fold_multiset_equiv [OF _ assms(1)]) (simp add: fun_eq_iff accumulate_extrema_commute)
  then have "(bounds_member (accumulate_row hs pv i row st),
              s_interp_max (accumulate_row hs pv i row st))
           = (bounds_member (accumulate_row hs pv i row' st),
              s_interp_max (accumulate_row hs pv i row' st))"
    by (simp only: accumulate_row_def extrema_fold)
  then have "accumulate_row hs pv i row st = accumulate_row hs pv i row' st"
    using assms(2,3) by (intro limiter.equality) simp_all
  then show ?thesis
    by (simp add: stencil_bounds_def)
qed

section \<open>The coefficient stays in its interval\<close>

lemma newton_iteration_in_bracket:
  "t_l \<le> t_r \<Longrightarrow>
   t_l \<le> newton_iteration Psi newton_step tolerance n t_l t_r
   \<and> newton_iteration Psi newton_step tolerance n t_l t_r \<le> t_r"
proof (induction n arbitrary: t_l t_r)
  case 0
  then show ?case by simp
next
  case (Suc n)
  define t where "t = (if t_l \<le> newton_step t_l t_r \<and> newton_step t_l t_r \<le> t_r
                       then newton_step t_l t_r else (t_l + t_r) / 2)"
  have t: "t_l \<le> t" "t \<le> t_r" using Suc.prems by (auto simp: t_def)
  from Suc.IH [OF t(1)] Suc.IH [OF t(2)] t Suc.prems
  show ?case
    by (auto simp: Let_def t_def [symmetric])
qed

text \<open>
  With entropy limiting switched off, the scenario of the specification (bounds
  \<open>(0.9, 1.1, 2.0)\<close>, density \<open>1.0\<close>, update of density \<open>0.3\<close>) stops at the upper density
  bound: \<open>1 + t * 0.3 = 1.1\<close> at \<open>t = 1/3\<close>.
\<close>

lemma limit_density_scenario:
  "limit scenario_system (7 / 5) False (\<lambda>t_l t_r. t_r) (9 / 10, 11 / 10, 2)
      [1, 0, 5 / 2] [3 / 10, 0, 0] (1 / 10 ^ 10) 2 0 1 = (1 / 3, True)"
  by (simp add: limit_def density_interval_def scenario_system_def tensor_add_def
      tensor_scale_def Let_def)

text \<open>
  Claim C7. For bounds, a state, a direction, a tolerance, an iteration budget and
  \<open>t_min \<le> t_max\<close>, the coefficient that \<open>limit\<close> returns lies in \<open>[t_min, t_max]\<close>.
\<close>

theorem limit_range:
  assumes "t_min \<le> t_max"
  shows "t_min \<le> fst (limit hs gamma entropy_limiting newton_step bnds U P tolerance
                          max_iterations t_min t_max)
       \<and> fst (limit hs gamma entropy_limiting newton_step bnds U P tolerance
                  max_iterations t_min t_max) \<le> t_max"
  using assms by (simp add: limit_def Let_def case_prod_beta)

theorem limit_range_witness:
  "(0::real) \<le> 1
   \<and> 0 \<le> fst (limit scenario_system (7 / 5) False (\<lambda>t_l t_r. t_r) (9 / 10, 11 / 10, 2)
                  [1, 0, 5 / 2] [3 / 10, 0, 0] (1 / 10 ^ 10) 2 0 1)
   \<and> fst (limit scenario_system (7 / 5) False (\<lambda>t_l t_r. t_r) (9 / 10, 11 / 10, 2)
                  [1, 0, 5 / 2] [3 / 10, 0, 0] (1 / 10 ^ 10) 2 0 1) \<le> 1"
  using limit_range [of 0 1 scenario_system "7 / 5" False "\<lambda>t_l t_r. t_r" "(9 / 10, 11 / 10, 2)"
      "[1, 0, 5 / 2]" "[3 / 10, 0, 0]" "1 / 10 ^ 10" 2]
  by simp

section \<open>Unrecognized strategies of the mesh adaptor\<close>

text \<open>
  Claim C9, as stated, fails: with an unrecognized time-point selection strategy, \<open>prepare\<close>
  takes its \<open>default\<close> branch, does nothing and returns; and with the adaptation strategy
  \<open>global_refinement\<close>, \<open>mark_cells_for_coarsening_and_refinement\<close> flags every cell and
  returns before it looks at an unrecognized marking strategy.
\<close>

theorem unrecognized_strategy_ignored:
  "prepare 0 ((constructed (\<lambda>n. n))
       \<lparr>time_point_selection_strategy := unrecognized_time_point_selection 7\<rparr>)
     = Inr ((constructed (\<lambda>n. n))
         \<lparr>time_point_selection_strategy := unrecognized_time_point_selection 7\<rparr>)
   \<and> mark_cells_for_coarsening_and_refinement (\<lambda>g. (0, g)) (\<lambda>tria ind a b. tria) True
       ((constructed (\<lambda>n. n))\<lparr>marking_strategy := unrecognized_marking 7\<rparr>)
       [\<lparr>refine_flag = False, coarsen_flag = False\<rparr>]
     = Inr ([\<lparr>refine_flag = True, coarsen_flag = False\<rparr>], 42)"
  by (simp add: prepare_def mark_cells_for_coarsening_and_refinement_def constructed_def
      set_refine_flag_def)

text \<open>
  Claim C9, amended. \<open>analyze\<close> aborts with \<open>ExcInternalError\<close> on an unrecognized time-point
  selection strategy; \<open>mark_cells_for_coarsening_and_refinement\<close> aborts on an unrecognized
  adaptation strategy, and on an unrecognized marking strategy when the adaptation strategy
  is \<open>random_adaptation\<close>. \<open>prepare\<close> ignores an unrecognized time-point selection strategy
  and only clears the adaptation flag, and global refinement returns whatever the marking
  strategy is.
\<close>

theorem unrecognized_strategy_aborts:
  "analyze t (ma\<lparr>time_point_selection_strategy := unrecognized_time_point_selection k\<rparr>)
     = Inl ExcInternalError
   \<and> mark_cells_for_coarsening_and_refinement distribution rc own
        (ma\<lparr>adaptation_strategy := unrecognized_adaptation k\<rparr>) tria = Inl ExcInternalError
   \<and> mark_cells_for_coarsening_and_refinement distribution rc own
        (ma\<lparr>adaptation_strategy := random_adaptation,
            marking_strategy := unrecognized_marking k\<rparr>) tria = Inl ExcInternalError
   \<and> prepare t (ma\<lparr>time_point_selection_strategy := unrecognized_time_point_selection k\<rparr>)
     = Inr (ma\<lparr>time_point_selection_strategy := unrecognized_time_point_selection k,
               need_mesh_adaptation := False\<rparr>)
   \<and> mark_cells_for_coarsening_and_refinement distribution rc True
        (ma\<lparr>adaptation_strategy := global_refinement\<rparr>) tria
     = Inr (map set_refine_flag tria, mersenne_twister ma)"
  by (simp add: analyze_def prepare_def mark_cells_for_coarsening_and_refinement_def
      case_prod_beta)

end
